theory Spec2Isabelle
  imports Main "HOL-Library.Sublist"
begin

section \<open>Errors\<close>

text \<open>
  A Go \<open>error\<close> value. \<open>nil\<close> is \<open>None\<close> of \<open>error option\<close>. An error is either produced
  by an external collaborator (\<open>External\<close>, carrying its message), built by
  \<open>fmt.Errorf\<close> with a constant message, or built by \<open>errors.Wrap err msg\<close> of
  github.com/pkg/errors, which keeps the cause and prefixes the message.
\<close>

datatype error =
    External string
  | fmt_Errorf string
  | errors_Wrap error string

text \<open>The \<open>Error()\<close> method, which is also what the verb \<open>%v\<close> prints.\<close>

fun Error :: "error \<Rightarrow> string" where
  "Error (External m) = m"
| "Error (fmt_Errorf m) = m"
| "Error (errors_Wrap err m) = m @ '': '' @ Error err"

section \<open>Data model\<close>

text \<open>
  Modelled from the spec: the type \<open>client2.Status\<close> and its four constants are declared in
  pkg/client, outside the source at hand. The spec gives the enumeration
  \<open>{NotFound, Stopped, Busy, Running}\<close>; \<open>Status_String\<close> is what \<open>%s\<close> prints.
\<close>

datatype Status = StatusRunning | StatusBusy | StatusStopped | StatusNotFound

fun Status_String :: "Status \<Rightarrow> string" where
  "Status_String StatusRunning = ''Running''"
| "Status_String StatusBusy = ''Busy''"
| "Status_String StatusStopped = ''Stopped''"
| "Status_String StatusNotFound = ''NotFound''"

text \<open>
  \<open>flags.GlobalFlags\<close> is embedded in \<open>SSHCmd\<close>; the fields are the ones the command reads
  (\<open>cmd.Context\<close>, \<open>cmd.Provider\<close>, \<open>cmd.Debug\<close>).
\<close>

record GlobalFlags =
  Context :: string
  Provider :: string
  Debug :: bool

record SSHCmd = GlobalFlags +
  Stdio :: bool
  JumpContainer :: bool
  Configure :: bool
  Command :: string
  User :: string

text \<open>Opaque handles: an established \<open>*ssh.Client\<close> and an \<open>*os.File\<close>.\<close>

type_synonym sshClient = nat
type_synonym osFile = nat

text \<open>Durations and instants in nanoseconds, as \<open>time.Duration\<close> counts them.\<close>

definition Second :: int where
  "Second = 1000000000"

section \<open>The environment\<close>

text \<open>
  Every effect of the program is an operation on a world state \<open>'w\<close>. The collaborators
  outside cmd/ssh.go are parameters: the workspace client, the logger, and the packages
  the command calls (time, os, token, tunnel, devssh, machine, agent). An operation that
  may block forever returns \<open>None\<close> in that case. A result \<open>(err, w)\<close> is the returned
  error (or \<open>None\<close> for nil) and the world afterwards.
\<close>

type_synonym 'w result = "(error option \<times> 'w) option"

text \<open>\<open>tunnel.Handler\<close>: \<open>func(ctx, sshClient) error\<close>.\<close>

type_synonym 'w Handler = "sshClient \<Rightarrow> 'w \<Rightarrow> 'w result"

record 'w WorkspaceClient =
  Status :: "'w \<Rightarrow> (error + Status) \<times> 'w"
  Start :: "'w \<Rightarrow> error option \<times> 'w"
  Create :: "'w \<Rightarrow> error option \<times> 'w"
  AgentInfo :: "'w \<Rightarrow> (error + string) \<times> 'w"
  AgentPath :: "'w \<Rightarrow> string"
  WorkspaceConfig_IDE_Name :: "'w \<Rightarrow> string"

record 'w Logger =
  Infof :: "string \<Rightarrow> 'w \<Rightarrow> 'w"
  Debugf :: "string \<Rightarrow> 'w \<Rightarrow> 'w"
  Errorf :: "string \<Rightarrow> 'w \<Rightarrow> 'w"

text \<open>
  The goroutine of \<open>runCredentialsServer\<close> is two operations of the environment:
  \<open>go_devssh_Run\<close> starts the remote helper with its command string and pipe ends, and
  \<open>recv_errChan\<close> receives what it sent on the result channel. \<open>ctx_Done\<close> waits for the
  context to be cancelled. \<open>ContainerDevPodHelperLocation\<close> (package agent) and
  \<open>IDEVSCode\<close> (package config) are constants declared outside the source at hand.
  The standard streams and log writers handed to \<open>devssh.Run\<close> are not represented.
\<close>

record 'w Runtime =
  time_Now :: "'w \<Rightarrow> int"
  time_Sleep :: "int \<Rightarrow> 'w \<Rightarrow> 'w"
  GetDevPodToken :: "'w \<Rightarrow> (error + string) \<times> 'w"
  ContainerTunnel_Run :: "'w Handler \<Rightarrow> 'w Handler option \<Rightarrow> 'w \<Rightarrow> 'w result"
  devssh_Run :: "sshClient \<Rightarrow> string \<Rightarrow> 'w \<Rightarrow> 'w result"
  GetDevPodPrivateKeyRaw :: "'w \<Rightarrow> (error + string) \<times> 'w"
  StartSSHSession :: "string \<Rightarrow> string \<Rightarrow> string \<Rightarrow> ('w \<Rightarrow> 'w result) \<Rightarrow> 'w \<Rightarrow> 'w result"
  os_Pipe :: "'w \<Rightarrow> (error + osFile \<times> osFile) \<times> 'w"
  File_Close :: "osFile \<Rightarrow> 'w \<Rightarrow> 'w"
  context_cancel :: "'w \<Rightarrow> 'w"
  go_devssh_Run :: "sshClient \<Rightarrow> string \<Rightarrow> osFile \<Rightarrow> osFile \<Rightarrow> 'w \<Rightarrow> 'w"
  RunTunnelServer :: "osFile \<Rightarrow> osFile \<Rightarrow> bool \<Rightarrow> bool \<Rightarrow> bool \<Rightarrow> 'w \<Rightarrow> 'w result"
  recv_errChan :: "'w \<Rightarrow> 'w result"
  ctx_Done :: "'w \<Rightarrow> 'w option"
  ContainerDevPodHelperLocation :: string
  IDEVSCode :: string

section \<open>startWait\<close>

text \<open>
  The \<open>for\<close> loop of \<open>startWait\<close>, with the local \<open>startWaiting\<close> as an argument. The loop
  has no bound: a workspace that stays busy keeps it polling, and the value is \<open>None\<close>.
\<close>

partial_function (option) startWait_loop ::
  "'w WorkspaceClient \<Rightarrow> 'w Logger \<Rightarrow> 'w Runtime \<Rightarrow> bool \<Rightarrow> int \<Rightarrow> 'w \<Rightarrow> 'w result"
where
  "startWait_loop client log rt create startWaiting w =
     (case Status client w of
        (Inl err, w1) \<Rightarrow> Some (Some err, w1)
      | (Inr instanceStatus, w1) \<Rightarrow>
          if instanceStatus = StatusBusy then
            (let (startWaiting', w2) =
               (if time_Now rt w1 - startWaiting > Second * 10 then
                  (let w' = Debugf log (''Got status '' @ Status_String instanceStatus @ '', expected: Running'')
                              (Infof log ''Waiting for workspace to come up...'' w1)
                   in (time_Now rt w', w'))
                else (startWaiting, w1))
             in startWait_loop client log rt create startWaiting' (time_Sleep rt (Second * 2) w2))
          else if instanceStatus = StatusStopped then
            (if create then
               (case Start client w1 of
                  (Some err, w2) \<Rightarrow> Some (Some (errors_Wrap err ''start workspace''), w2)
                | (None, w2) \<Rightarrow> Some (None, w2))
             else Some (Some (fmt_Errorf ''workspace is stopped''), w1))
          else if instanceStatus = StatusNotFound then
            (if create then
               (case Create client w1 of
                  (Some err, w2) \<Rightarrow> Some (Some err, w2)
                | (None, w2) \<Rightarrow> Some (None, w2))
             else Some (Some (fmt_Errorf ''workspace wasn't found''), w1))
          else Some (None, w1))"

declare startWait_loop.simps [code]

definition startWait ::
  "'w WorkspaceClient \<Rightarrow> 'w Logger \<Rightarrow> 'w Runtime \<Rightarrow> bool \<Rightarrow> 'w \<Rightarrow> 'w result"
where
  "startWait client log rt create w =
     (let startWaiting = time_Now rt w
      in startWait_loop client log rt create startWaiting w)"

section \<open>runCredentialsServer\<close>

text \<open>
  The command string the goroutine builds with \<open>fmt.Sprintf\<close> and \<open>+=\<close>. The apostrophe
  is \<open>CHR 0x27\<close>.
\<close>

definition runCredentialsServer_command :: "string \<Rightarrow> string \<Rightarrow> bool \<Rightarrow> bool \<Rightarrow> string" where
  "runCredentialsServer_command helperLocation user gitCredentials dockerCredentials =
     (let command = helperLocation @ '' agent container credentials-server --user '' @ [CHR 0x27] @ user @ [CHR 0x27];
          command = (if gitCredentials then command @ '' --configure-git-helper'' else command);
          command = (if dockerCredentials then command @ '' --configure-docker-helper'' else command)
      in command)"

text \<open>
  The deferred calls run after the returned value is computed, last registered first:
  \<open>cancel()\<close>, \<open>stdinWriter.Close()\<close>, \<open>stdoutWriter.Close()\<close>.
\<close>

definition runCredentialsServer ::
  "'w Logger \<Rightarrow> 'w Runtime \<Rightarrow> sshClient \<Rightarrow> string \<Rightarrow> bool \<Rightarrow> bool \<Rightarrow> 'w \<Rightarrow> 'w result"
where
  "runCredentialsServer log rt client user gitCredentials dockerCredentials w =
     (if \<not> gitCredentials \<and> \<not> dockerCredentials then Some (None, w)
      else
        (case os_Pipe rt w of
           (Inl err, w1) \<Rightarrow> Some (Some err, w1)
         | (Inr (stdoutReader, stdoutWriter), w1) \<Rightarrow>
             (case os_Pipe rt w1 of
                (Inl err, w2) \<Rightarrow> Some (Some err, File_Close rt stdoutWriter w2)
              | (Inr (stdinReader, stdinWriter), w2) \<Rightarrow>
                  (let deferred = (\<lambda>w. File_Close rt stdoutWriter
                                         (File_Close rt stdinWriter (context_cancel rt w)));
                       command = runCredentialsServer_command
                                   (ContainerDevPodHelperLocation rt) user gitCredentials dockerCredentials;
                       w3 = go_devssh_Run rt client command stdinReader stdoutWriter w2
                   in (case RunTunnelServer rt stdoutReader stdinWriter False
                              gitCredentials dockerCredentials w3 of
                         None \<Rightarrow> None
                       | Some (Some err, w4) \<Rightarrow>
                           Some (Some (errors_Wrap err ''run tunnel server''), deferred w4)
                       | Some (None, w4) \<Rightarrow>
                           (case recv_errChan rt w4 of
                              None \<Rightarrow> None
                            | Some (res, w5) \<Rightarrow> Some (res, deferred w5)))))))"

section \<open>jumpContainer\<close>

text \<open>
  The closure assigned to \<open>runInContainer\<close>: it runs the credentials server with
  \<open>dockerCredentials = true\<close>, logs an error if there is one, waits on \<open>ctx.Done()\<close> and
  returns nil.
\<close>

definition runInContainer_handler ::
  "'w Logger \<Rightarrow> 'w Runtime \<Rightarrow> string \<Rightarrow> bool \<Rightarrow> 'w Handler"
where
  "runInContainer_handler log rt user gitCredentials sshClient w =
     (case runCredentialsServer log rt sshClient user gitCredentials True w of
        None \<Rightarrow> None
      | Some (err, w1) \<Rightarrow>
          (let w2 = (case err of
                       Some e \<Rightarrow> Errorf log (''Error running credential server: '' @ Error e) w1
                     | None \<Rightarrow> w1)
           in (case ctx_Done rt w2 of
                 None \<Rightarrow> None
               | Some w3 \<Rightarrow> Some (None, w3))))"

text \<open>The variable \<open>runInContainer\<close>: nil (\<open>None\<close>) unless \<open>cmd.User\<close> is set.\<close>

definition runInContainer ::
  "SSHCmd \<Rightarrow> 'w WorkspaceClient \<Rightarrow> 'w Logger \<Rightarrow> 'w Runtime \<Rightarrow> 'w \<Rightarrow> 'w Handler option"
where
  "runInContainer cmd client log rt w =
     (if User cmd \<noteq> [] then
        (let gitCredentials = (WorkspaceConfig_IDE_Name client w \<noteq> IDEVSCode rt)
         in Some (runInContainer_handler log rt (User cmd) gitCredentials))
      else None)"

text \<open>The local \<open>command\<close> of the outer handler.\<close>

definition jumpContainer_command :: "SSHCmd \<Rightarrow> string \<Rightarrow> string \<Rightarrow> string \<Rightarrow> string" where
  "jumpContainer_command cmd agentPath tok workspaceInfo =
     (let command = agentPath @ '' agent container-tunnel --start-container --track-activity --token ''
                      @ [CHR 0x27] @ tok @ [CHR 0x27] @ '' --workspace-info '' @ [CHR 0x27] @ workspaceInfo @ [CHR 0x27];
          command = (if Debug cmd then command @ '' --debug'' else command);
          command = (if User cmd \<noteq> [] then command @ '' --user='' @ [CHR 0x27] @ User cmd @ [CHR 0x27] else command)
      in command)"

text \<open>The outer handler handed to the container tunnel.\<close>

definition jumpContainer_handler ::
  "SSHCmd \<Rightarrow> 'w WorkspaceClient \<Rightarrow> 'w Logger \<Rightarrow> 'w Runtime \<Rightarrow> string \<Rightarrow> string \<Rightarrow> 'w Handler"
where
  "jumpContainer_handler cmd client log rt tok workspaceInfo sshClient w =
     (let w1 = Debugf log ''Run outer container tunnel'' w;
          command = jumpContainer_command cmd (AgentPath client w1) tok workspaceInfo
      in if Stdio cmd then devssh_Run rt sshClient command w1
         else
           (case GetDevPodPrivateKeyRaw rt w1 of
              (Inl err, w2) \<Rightarrow> Some (Some err, w2)
            | (Inr privateKey, w2) \<Rightarrow>
                StartSSHSession rt privateKey (User cmd) (Command cmd)
                  (devssh_Run rt sshClient command) w2))"

definition jumpContainer ::
  "SSHCmd \<Rightarrow> 'w WorkspaceClient \<Rightarrow> 'w Logger \<Rightarrow> 'w Runtime \<Rightarrow> 'w \<Rightarrow> 'w result"
where
  "jumpContainer cmd client log rt w =
     (case startWait client log rt False w of
        None \<Rightarrow> None
      | Some (Some err, w1) \<Rightarrow> Some (Some err, w1)
      | Some (None, w1) \<Rightarrow>
          (case GetDevPodToken rt w1 of
             (Inl err, w2) \<Rightarrow> Some (Some err, w2)
           | (Inr tok, w2) \<Rightarrow>
               (case AgentInfo client w2 of
                  (Inl err, w3) \<Rightarrow> Some (Some err, w3)
                | (Inr workspaceInfo, w3) \<Rightarrow>
                    ContainerTunnel_Run rt
                      (jumpContainer_handler cmd client log rt tok workspaceInfo)
                      (runInContainer cmd client log rt w3) w3)))"

section \<open>A scripted environment\<close>

text \<open>
  A test double for the collaborators. The world holds the answers the collaborators
  will give (the status sequence, the results of \<open>Start\<close>, \<open>Create\<close>, \<open>os.Pipe\<close>, the
  tunnel server and the remote process), a clock that only \<open>time.Sleep\<close> advances, and
  the list of calls made so far, oldest first.
\<close>

datatype call =
    CallStatus
  | CallStart
  | CallCreate
  | CallAgentInfo
  | CallInfof string
  | CallDebugf string
  | CallErrorf string
  | CallSleep int
  | CallGetDevPodToken
  | CallTunnelRun
  | CallRun sshClient string
  | CallGetDevPodPrivateKeyRaw
  | CallStartSSHSession string string
  | CallPipe
  | CallClose osFile
  | CallCancel
  | CallGoRun sshClient string
  | CallRunTunnelServer bool bool
  | CallRecvErrChan

record world =
  statuses :: "(error + Status) list"
  startResult :: "error option"
  createResult :: "error option"
  pipes :: "(error + osFile \<times> osFile) list"
  tunnelServerResult :: "error option"
  remoteResult :: "error option"
  ctxCancelled :: bool
  ideName :: string
  clock :: int
  calls :: "call list"

definition called :: "call \<Rightarrow> world \<Rightarrow> world" where
  "called c w = w\<lparr>calls := calls w @ [c]\<rparr>"

definition mock_client :: "world WorkspaceClient" where
  "mock_client =
     \<lparr> Status = (\<lambda>w. case statuses w of
                        [] \<Rightarrow> (Inl (External ''no status scripted''), called CallStatus w)
                      | r # rs \<Rightarrow> (r, called CallStatus (w\<lparr>statuses := rs\<rparr>))),
       Start = (\<lambda>w. (startResult w, called CallStart w)),
       Create = (\<lambda>w. (createResult w, called CallCreate w)),
       AgentInfo = (\<lambda>w. (Inr ''{}'', called CallAgentInfo w)),
       AgentPath = (\<lambda>w. ''/var/lib/devpod/agent''),
       WorkspaceConfig_IDE_Name = ideName \<rparr>"

definition mock_log :: "world Logger" where
  "mock_log =
     \<lparr> Infof = (\<lambda>m. called (CallInfof m)),
       Debugf = (\<lambda>m. called (CallDebugf m)),
       Errorf = (\<lambda>m. called (CallErrorf m)) \<rparr>"

definition mock_rt :: "world Runtime" where
  "mock_rt =
     \<lparr> time_Now = clock,
       time_Sleep = (\<lambda>d w. called (CallSleep d) (w\<lparr>clock := clock w + d\<rparr>)),
       GetDevPodToken = (\<lambda>w. (Inr ''tok'', called CallGetDevPodToken w)),
       ContainerTunnel_Run = (\<lambda>outer inner w.
          (case inner of
             None \<Rightarrow> outer 0 (called CallTunnelRun w)
           | Some h \<Rightarrow>
               (case h 0 (called CallTunnelRun w) of
                  None \<Rightarrow> None
                | Some (_, w1) \<Rightarrow> outer 0 w1))),
       devssh_Run = (\<lambda>c command w. Some (remoteResult w, called (CallRun c command) w)),
       GetDevPodPrivateKeyRaw = (\<lambda>w. (Inr ''key'', called CallGetDevPodPrivateKeyRaw w)),
       StartSSHSession = (\<lambda>key user command exec w. exec (called (CallStartSSHSession user command) w)),
       os_Pipe = (\<lambda>w. case pipes w of
                        [] \<Rightarrow> (Inl (External ''too many open files''), called CallPipe w)
                      | p # ps \<Rightarrow> (p, called CallPipe (w\<lparr>pipes := ps\<rparr>))),
       File_Close = (\<lambda>f. called (CallClose f)),
       context_cancel = called CallCancel,
       go_devssh_Run = (\<lambda>c command stdin stdout. called (CallGoRun c command)),
       RunTunnelServer = (\<lambda>r wr configure git docker w.
          Some (tunnelServerResult w, called (CallRunTunnelServer git docker) w)),
       recv_errChan = (\<lambda>w. Some (remoteResult w, called CallRecvErrChan w)),
       ctx_Done = (\<lambda>w. if ctxCancelled w then Some w else None),
       ContainerDevPodHelperLocation = ''/usr/local/bin/devpod'',
       IDEVSCode = ''vscode'' \<rparr>"

text \<open>The world before the command runs: nothing called yet, the clock at 0.\<close>

definition world0 :: "(error + Status) list \<Rightarrow> error option \<Rightarrow> error option \<Rightarrow> world" where
  "world0 sts sr cr =
     \<lparr> statuses = sts, startResult = sr, createResult = cr, pipes = [Inr (3, 4), Inr (5, 6)],
       tunnelServerResult = None, remoteResult = None, ctxCancelled = True,
       ideName = ''none'', clock = 0, calls = [] \<rparr>"

text \<open>The calls of \<open>Start\<close> and \<open>Create\<close> made so far.\<close>

definition provisionCalls :: "world \<Rightarrow> call list" where
  "provisionCalls w = filter (\<lambda>c. c = CallStart \<or> c = CallCreate) (calls w)"

section \<open>Facts about the scripted environment\<close>

lemma calls_called [simp]: "calls (called c w) = calls w @ [c]"
  by (simp add: called_def)

lemma statuses_called [simp]: "statuses (called c w) = statuses w"
  by (simp add: called_def)

lemma clock_called [simp]: "clock (called c w) = clock w"
  by (simp add: called_def)

lemma mock_Status_cons:
  "statuses w = r # rs \<Longrightarrow> Status mock_client w = (r, called CallStatus (w\<lparr>statuses := rs\<rparr>))"
  by (simp add: mock_client_def)

lemma mock_Status_nil:
  "statuses w = [] \<Longrightarrow> Status mock_client w = (Inl (External ''no status scripted''), called CallStatus w)"
  by (simp add: mock_client_def)

lemma mock_log_simps [simp]:
  "Infof mock_log m = called (CallInfof m)"
  "Debugf mock_log m = called (CallDebugf m)"
  "Errorf mock_log m = called (CallErrorf m)"
  by (simp_all add: mock_log_def)

lemma mock_time_simps [simp]:
  "time_Now mock_rt = clock"
  "time_Sleep mock_rt d w = called (CallSleep d) (w\<lparr>clock := clock w + d\<rparr>)"
  by (simp_all add: mock_rt_def)

lemma world0_simps [simp]:
  "statuses (world0 sts sr cr) = sts"
  "startResult (world0 sts sr cr) = sr"
  "createResult (world0 sts sr cr) = cr"
  "calls (world0 sts sr cr) = []"
  "clock (world0 sts sr cr) = 0"
  by (simp_all add: world0_def)

lemma mock_rt_simps [simp]:
  "GetDevPodToken mock_rt w = (Inr ''tok'', called CallGetDevPodToken w)"
  "ContainerTunnel_Run mock_rt outer inner w =
     (case inner of
        None \<Rightarrow> outer 0 (called CallTunnelRun w)
      | Some h \<Rightarrow>
          (case h 0 (called CallTunnelRun w) of
             None \<Rightarrow> None
           | Some (_, w1) \<Rightarrow> outer 0 w1))"
  "devssh_Run mock_rt c command w = Some (remoteResult w, called (CallRun c command) w)"
  "GetDevPodPrivateKeyRaw mock_rt w = (Inr ''key'', called CallGetDevPodPrivateKeyRaw w)"
  "StartSSHSession mock_rt key user command exec w = exec (called (CallStartSSHSession user command) w)"
  "os_Pipe mock_rt w =
     (case pipes w of
        [] \<Rightarrow> (Inl (External ''too many open files''), called CallPipe w)
      | p # ps \<Rightarrow> (p, called CallPipe (w\<lparr>pipes := ps\<rparr>)))"
  "File_Close mock_rt f = called (CallClose f)"
  "context_cancel mock_rt = called CallCancel"
  "go_devssh_Run mock_rt c command stdin stdout = called (CallGoRun c command)"
  "RunTunnelServer mock_rt r wr configure git docker w =
     Some (tunnelServerResult w, called (CallRunTunnelServer git docker) w)"
  "recv_errChan mock_rt w = Some (remoteResult w, called CallRecvErrChan w)"
  "ctx_Done mock_rt w = (if ctxCancelled w then Some w else None)"
  "ContainerDevPodHelperLocation mock_rt = ''/usr/local/bin/devpod''"
  "IDEVSCode mock_rt = ''vscode''"
  by (simp_all add: mock_rt_def)

lemma mock_client_simps [simp]:
  "Start mock_client w = (startResult w, called CallStart w)"
  "Create mock_client w = (createResult w, called CallCreate w)"
  "AgentInfo mock_client w = (Inr ''{}'', called CallAgentInfo w)"
  "AgentPath mock_client w = ''/var/lib/devpod/agent''"
  "WorkspaceConfig_IDE_Name mock_client = ideName"
  by (simp_all add: mock_client_def)

lemma called_fields [simp]:
  "pipes (called c w) = pipes w"
  "startResult (called c w) = startResult w"
  "createResult (called c w) = createResult w"
  "tunnelServerResult (called c w) = tunnelServerResult w"
  "remoteResult (called c w) = remoteResult w"
  "ctxCancelled (called c w) = ctxCancelled w"
  "ideName (called c w) = ideName w"
  by (simp_all add: called_def)

lemma provisionCalls_called:
  "c \<noteq> CallStart \<Longrightarrow> c \<noteq> CallCreate \<Longrightarrow> provisionCalls (called c w) = provisionCalls w"
  by (simp add: provisionCalls_def)

lemma provisionCalls_update [simp]:
  "provisionCalls (w\<lparr>statuses := sts\<rparr>) = provisionCalls w"
  "provisionCalls (w\<lparr>pipes := ps\<rparr>) = provisionCalls w"
  "provisionCalls (w\<lparr>clock := t\<rparr>) = provisionCalls w"
  by (simp_all add: provisionCalls_def)

section \<open>The loop, one iteration at a time\<close>

lemma startWait_loop_error:
  "Status client w = (Inl err, w1) \<Longrightarrow>
   startWait_loop client log rt create t w = Some (Some err, w1)"
  by (subst startWait_loop.simps) simp

lemma startWait_loop_Running:
  "Status client w = (Inr StatusRunning, w1) \<Longrightarrow>
   startWait_loop client log rt create t w = Some (None, w1)"
  by (subst startWait_loop.simps) simp

lemma startWait_loop_Stopped:
  "Status client w = (Inr StatusStopped, w1) \<Longrightarrow>
   startWait_loop client log rt create t w =
     (if create then
        (case Start client w1 of
           (Some err, w2) \<Rightarrow> Some (Some (errors_Wrap err ''start workspace''), w2)
         | (None, w2) \<Rightarrow> Some (None, w2))
      else Some (Some (fmt_Errorf ''workspace is stopped''), w1))"
  by (subst startWait_loop.simps) simp

lemma startWait_loop_NotFound:
  "Status client w = (Inr StatusNotFound, w1) \<Longrightarrow>
   startWait_loop client log rt create t w =
     (if create then
        (case Create client w1 of
           (Some err, w2) \<Rightarrow> Some (Some err, w2)
         | (None, w2) \<Rightarrow> Some (None, w2))
      else Some (Some (fmt_Errorf ''workspace wasn't found''), w1))"
  by (subst startWait_loop.simps) simp

lemma startWait_loop_Busy_notice:
  "Status client w = (Inr StatusBusy, w1) \<Longrightarrow> time_Now rt w1 - t > Second * 10 \<Longrightarrow>
   w' = Debugf log ''Got status Busy, expected: Running''
          (Infof log ''Waiting for workspace to come up...'' w1) \<Longrightarrow>
   startWait_loop client log rt create t w =
     startWait_loop client log rt create (time_Now rt w') (time_Sleep rt (Second * 2) w')"
  by (subst startWait_loop.simps) (simp add: Let_def)

lemma startWait_loop_Busy_quiet:
  "Status client w = (Inr StatusBusy, w1) \<Longrightarrow> \<not> time_Now rt w1 - t > Second * 10 \<Longrightarrow>
   startWait_loop client log rt create t w =
     startWait_loop client log rt create t (time_Sleep rt (Second * 2) w1)"
  by (subst startWait_loop.simps) simp


section \<open>Busy polls before a provisioning call\<close>

lemma startWait_loop_skip_busy:
  "statuses w = replicate n (Inr StatusBusy) @ tail \<Longrightarrow>
   \<exists>t' w'. startWait_loop mock_client mock_log mock_rt create t w =
             startWait_loop mock_client mock_log mock_rt create t' w' \<and>
          statuses w' = tail \<and>
          startResult w' = startResult w \<and>
          createResult w' = createResult w \<and>
          count_list (calls w') CallStatus = count_list (calls w) CallStatus + n \<and>
          count_list (calls w') CallStart = count_list (calls w) CallStart \<and>
          count_list (calls w') CallCreate = count_list (calls w) CallCreate"
proof (induction n arbitrary: w t)
  case 0
  then show ?case by auto
next
  case (Suc n)
  let ?script = "replicate n (Inr StatusBusy) @ tail"
  define w1 where "w1 = called CallStatus (w\<lparr>statuses := ?script\<rparr>)"
  from Suc.prems have st: "Status mock_client w = (Inr StatusBusy, w1)"
    by (simp add: mock_Status_cons w1_def)
  show ?case
  proof (cases "time_Now mock_rt w1 - t > Second * 10")
    case True
    define w' where "w' = Debugf mock_log ''Got status Busy, expected: Running''
                            (Infof mock_log ''Waiting for workspace to come up...'' w1)"
    define w2 where "w2 = time_Sleep mock_rt (Second * 2) w'"
    have script: "statuses w2 = ?script"
      by (simp add: w2_def w'_def w1_def)
    have keep:
      "startResult w2 = startResult w"
      "createResult w2 = createResult w"
      "count_list (calls w2) CallStatus = count_list (calls w) CallStatus + 1"
      "count_list (calls w2) CallStart = count_list (calls w) CallStart"
      "count_list (calls w2) CallCreate = count_list (calls w) CallCreate"
      by (simp_all add: w2_def w'_def w1_def)
    have step: "startWait_loop mock_client mock_log mock_rt create t w =
                startWait_loop mock_client mock_log mock_rt create (time_Now mock_rt w') w2"
      unfolding w2_def by (rule startWait_loop_Busy_notice [OF st True w'_def])
    from Suc.IH [OF script, of "time_Now mock_rt w'"] show ?thesis
      unfolding step keep by auto
  next
    case False
    define w2 where "w2 = time_Sleep mock_rt (Second * 2) w1"
    have script: "statuses w2 = ?script"
      by (simp add: w2_def w1_def)
    have keep:
      "startResult w2 = startResult w"
      "createResult w2 = createResult w"
      "count_list (calls w2) CallStatus = count_list (calls w) CallStatus + 1"
      "count_list (calls w2) CallStart = count_list (calls w) CallStart"
      "count_list (calls w2) CallCreate = count_list (calls w) CallCreate"
      by (simp_all add: w2_def w1_def)
    have step: "startWait_loop mock_client mock_log mock_rt create t w =
                startWait_loop mock_client mock_log mock_rt create t w2"
      unfolding w2_def by (rule startWait_loop_Busy_quiet [OF st False])
    from Suc.IH [OF script, of t] show ?thesis
      unfolding step keep by auto
  qed
qed

lemma startWait_loop_busy_then_Stopped:
  assumes "statuses w = replicate n (Inr StatusBusy) @ Inr StatusStopped # rest"
    and "startResult w = None"
  shows "\<exists>w'. startWait_loop mock_client mock_log mock_rt True t w = Some (None, w') \<and>
           count_list (calls w') CallStatus = count_list (calls w) CallStatus + n + 1 \<and>
           count_list (calls w') CallStart = count_list (calls w) CallStart + 1 \<and>
           count_list (calls w') CallCreate = count_list (calls w) CallCreate \<and>
           statuses w' = rest"
proof -
  from startWait_loop_skip_busy [OF assms(1), of True t]
  obtain t' v where v:
    "startWait_loop mock_client mock_log mock_rt True t w =
       startWait_loop mock_client mock_log mock_rt True t' v"
    "statuses v = Inr StatusStopped # rest"
    "startResult v = startResult w"
    "count_list (calls v) CallStatus = count_list (calls w) CallStatus + n"
    "count_list (calls v) CallStart = count_list (calls w) CallStart"
    "count_list (calls v) CallCreate = count_list (calls w) CallCreate"
    by blast
  define v1 where "v1 = called CallStatus (v\<lparr>statuses := rest\<rparr>)"
  have st: "Status mock_client v = (Inr StatusStopped, v1)"
    using v(2) by (simp add: mock_Status_cons v1_def)
  have "startWait_loop mock_client mock_log mock_rt True t' v = Some (None, called CallStart v1)"
    using v(3) assms(2) by (simp add: startWait_loop_Stopped [OF st] v1_def)
  with v show ?thesis
    by (simp add: v1_def)
qed

lemma startWait_loop_busy_then_NotFound:
  assumes "statuses w = replicate n (Inr StatusBusy) @ Inr StatusNotFound # rest"
    and "createResult w = None"
  shows "\<exists>w'. startWait_loop mock_client mock_log mock_rt True t w = Some (None, w') \<and>
           count_list (calls w') CallStatus = count_list (calls w) CallStatus + n + 1 \<and>
           count_list (calls w') CallStart = count_list (calls w) CallStart \<and>
           count_list (calls w') CallCreate = count_list (calls w) CallCreate + 1 \<and>
           statuses w' = rest"
proof -
  from startWait_loop_skip_busy [OF assms(1), of True t]
  obtain t' v where v:
    "startWait_loop mock_client mock_log mock_rt True t w =
       startWait_loop mock_client mock_log mock_rt True t' v"
    "statuses v = Inr StatusNotFound # rest"
    "createResult v = createResult w"
    "count_list (calls v) CallStatus = count_list (calls w) CallStatus + n"
    "count_list (calls v) CallStart = count_list (calls w) CallStart"
    "count_list (calls v) CallCreate = count_list (calls w) CallCreate"
    by blast
  define v1 where "v1 = called CallStatus (v\<lparr>statuses := rest\<rparr>)"
  have st: "Status mock_client v = (Inr StatusNotFound, v1)"
    using v(2) by (simp add: mock_Status_cons v1_def)
  have "startWait_loop mock_client mock_log mock_rt True t' v = Some (None, called CallCreate v1)"
    using v(3) assms(2) by (simp add: startWait_loop_NotFound [OF st] v1_def)
  with v show ?thesis
    by (simp add: v1_def)
qed

section \<open>Readiness wait\<close>

text \<open>
  C1, as stated, at a concrete input: the status sequence is Stopped, Busy, Running and
  \<open>Start\<close> succeeds. \<open>startWait\<close> returns nil after one status query and the call of
  \<open>Start\<close>; the statuses Busy and Running are never read.
\<close>

theorem startWait_returns_after_Start:
  "map_option (\<lambda>(err, w). (err, calls w, statuses w))
     (startWait mock_client mock_log mock_rt True
        (world0 [Inr StatusStopped, Inr StatusBusy, Inr StatusRunning] None None))
   = Some (None, [CallStatus, CallStart], [Inr StatusBusy, Inr StatusRunning])"
  by (simp add: startWait_def startWait_loop_Stopped mock_Status_cons mock_client_def
        world0_def called_def)

text \<open>
  C1 (amended): at any iteration of the loop, when the status is Stopped (or NotFound)
  and provisioning is allowed, after \<open>Start()\<close> (or \<open>Create()\<close>) returns without error
  \<open>startWait\<close> returns success at once, in the world that call left, without another
  status query. This holds for the loop entered with any \<open>startWaiting\<close> in any world,
  hence for \<open>startWait\<close> itself; and against a scripted client whose status sequence is
  \<open>n\<close> times Busy and then Stopped (or NotFound), \<open>startWait\<close> returns nil after exactly
  \<open>n + 1\<close> status queries and one call of \<open>Start\<close> (or \<open>Create\<close>), leaving the rest of
  the sequence unread.
\<close>

theorem startWait_provision_success:
  "(Status client w = (Inr StatusStopped, w1) \<and> Start client w1 = (None, w2) \<longrightarrow>
      startWait_loop client log rt True startWaiting w = Some (None, w2) \<and>
      startWait client log rt True w = Some (None, w2)) \<and>
   (Status client w = (Inr StatusNotFound, w1) \<and> Create client w1 = (None, w2) \<longrightarrow>
      startWait_loop client log rt True startWaiting w = Some (None, w2) \<and>
      startWait client log rt True w = Some (None, w2)) \<and>
   (statuses mw = replicate n (Inr StatusBusy) @ Inr StatusStopped # rest \<and> startResult mw = None \<longrightarrow>
      (\<exists>w'. startWait mock_client mock_log mock_rt True mw = Some (None, w') \<and>
         count_list (calls w') CallStatus = count_list (calls mw) CallStatus + n + 1 \<and>
         count_list (calls w') CallStart = count_list (calls mw) CallStart + 1 \<and>
         count_list (calls w') CallCreate = count_list (calls mw) CallCreate \<and>
         statuses w' = rest)) \<and>
   (statuses mw = replicate n (Inr StatusBusy) @ Inr StatusNotFound # rest \<and> createResult mw = None \<longrightarrow>
      (\<exists>w'. startWait mock_client mock_log mock_rt True mw = Some (None, w') \<and>
         count_list (calls w') CallStatus = count_list (calls mw) CallStatus + n + 1 \<and>
         count_list (calls w') CallStart = count_list (calls mw) CallStart \<and>
         count_list (calls w') CallCreate = count_list (calls mw) CallCreate + 1 \<and>
         statuses w' = rest))"
proof (intro conjI impI)
  assume "Status client w = (Inr StatusStopped, w1) \<and> Start client w1 = (None, w2)"
  then show "startWait_loop client log rt True startWaiting w = Some (None, w2)"
    and "startWait client log rt True w = Some (None, w2)"
    by (simp_all add: startWait_def startWait_loop_Stopped)
next
  assume "Status client w = (Inr StatusNotFound, w1) \<and> Create client w1 = (None, w2)"
  then show "startWait_loop client log rt True startWaiting w = Some (None, w2)"
    and "startWait client log rt True w = Some (None, w2)"
    by (simp_all add: startWait_def startWait_loop_NotFound)
next
  assume "statuses mw = replicate n (Inr StatusBusy) @ Inr StatusStopped # rest \<and> startResult mw = None"
  then show "\<exists>w'. startWait mock_client mock_log mock_rt True mw = Some (None, w') \<and>
         count_list (calls w') CallStatus = count_list (calls mw) CallStatus + n + 1 \<and>
         count_list (calls w') CallStart = count_list (calls mw) CallStart + 1 \<and>
         count_list (calls w') CallCreate = count_list (calls mw) CallCreate \<and>
         statuses w' = rest"
    unfolding startWait_def Let_def by (blast intro: startWait_loop_busy_then_Stopped)
next
  assume "statuses mw = replicate n (Inr StatusBusy) @ Inr StatusNotFound # rest \<and> createResult mw = None"
  then show "\<exists>w'. startWait mock_client mock_log mock_rt True mw = Some (None, w') \<and>
         count_list (calls w') CallStatus = count_list (calls mw) CallStatus + n + 1 \<and>
         count_list (calls w') CallStart = count_list (calls mw) CallStart \<and>
         count_list (calls w') CallCreate = count_list (calls mw) CallCreate + 1 \<and>
         statuses w' = rest"
    unfolding startWait_def Let_def by (blast intro: startWait_loop_busy_then_NotFound)
qed

theorem startWait_provision_success_witness:
  "startWait mock_client mock_log mock_rt True (world0 [Inr StatusStopped, Inr StatusRunning] None None)
     = Some (None, called CallStart (called CallStatus (world0 [Inr StatusRunning] None None))) \<and>
   startWait_loop mock_client mock_log mock_rt True 7
       (world0 [Inr StatusNotFound, Inr StatusRunning] None None)
     = Some (None, called CallCreate (called CallStatus (world0 [Inr StatusRunning] None None))) \<and>
   calls (called CallStart (called CallStatus (world0 [Inr StatusRunning] None None)))
     = [CallStatus, CallStart] \<and>
   calls (called CallCreate (called CallStatus (world0 [Inr StatusRunning] None None)))
     = [CallStatus, CallCreate] \<and>
   (\<exists>w'. startWait mock_client mock_log mock_rt True
           (world0 [Inr StatusBusy, Inr StatusBusy, Inr StatusStopped, Inr StatusRunning] None None)
         = Some (None, w') \<and>
        count_list (calls w') CallStatus = 3 \<and>
        count_list (calls w') CallStart = 1 \<and>
        count_list (calls w') CallCreate = 0 \<and>
        statuses w' = [Inr StatusRunning]) \<and>
   (\<exists>w'. startWait mock_client mock_log mock_rt True
           (world0 [Inr StatusBusy, Inr StatusNotFound, Inr StatusRunning] None None)
         = Some (None, w') \<and>
        count_list (calls w') CallStatus = 2 \<and>
        count_list (calls w') CallStart = 0 \<and>
        count_list (calls w') CallCreate = 1 \<and>
        statuses w' = [Inr StatusRunning])"
proof -
  let ?w1 = "called CallStatus (world0 [Inr StatusRunning] None None)"
  have stopped: "Status mock_client (world0 [Inr StatusStopped, Inr StatusRunning] None None)
      = (Inr StatusStopped, ?w1)"
    by (simp add: mock_client_def world0_def)
  have notfound: "Status mock_client (world0 [Inr StatusNotFound, Inr StatusRunning] None None)
      = (Inr StatusNotFound, ?w1)"
    by (simp add: mock_client_def world0_def)
  have start: "Start mock_client ?w1 = (None, called CallStart ?w1)"
    by (simp add: world0_def called_def)
  have create: "Create mock_client ?w1 = (None, called CallCreate ?w1)"
    by (simp add: world0_def called_def)
  from startWait_provision_success
         [where client = mock_client and log = mock_log and rt = mock_rt
            and w = "world0 [Inr StatusStopped, Inr StatusRunning] None None" and ?w1.0 = ?w1
            and ?w2.0 = "called CallStart ?w1", THEN conjunct1] stopped start
  have a: "startWait mock_client mock_log mock_rt True
             (world0 [Inr StatusStopped, Inr StatusRunning] None None)
           = Some (None, called CallStart ?w1)"
    by blast
  from startWait_provision_success
         [where client = mock_client and log = mock_log and rt = mock_rt and startWaiting = 7
            and w = "world0 [Inr StatusNotFound, Inr StatusRunning] None None" and ?w1.0 = ?w1
            and ?w2.0 = "called CallCreate ?w1", THEN conjunct2, THEN conjunct1] notfound create
  have b: "startWait_loop mock_client mock_log mock_rt True 7
             (world0 [Inr StatusNotFound, Inr StatusRunning] None None)
           = Some (None, called CallCreate ?w1)"
    by blast
  have s1: "statuses (world0 [Inr StatusBusy, Inr StatusBusy, Inr StatusStopped, Inr StatusRunning] None None)
      = replicate 2 (Inr StatusBusy) @ Inr StatusStopped # [Inr StatusRunning] \<and>
     startResult (world0 [Inr StatusBusy, Inr StatusBusy, Inr StatusStopped, Inr StatusRunning] None None) = None"
    by (simp add: numeral_2_eq_2)
  from startWait_provision_success
         [where n = 2 and rest = "[Inr StatusRunning]"
            and mw = "world0 [Inr StatusBusy, Inr StatusBusy, Inr StatusStopped, Inr StatusRunning] None None",
          THEN conjunct2, THEN conjunct2, THEN conjunct1] s1
  have c: "\<exists>w'. startWait mock_client mock_log mock_rt True
           (world0 [Inr StatusBusy, Inr StatusBusy, Inr StatusStopped, Inr StatusRunning] None None)
         = Some (None, w') \<and>
        count_list (calls w') CallStatus = 3 \<and>
        count_list (calls w') CallStart = 1 \<and>
        count_list (calls w') CallCreate = 0 \<and>
        statuses w' = [Inr StatusRunning]"
    by (simp add: numeral_3_eq_3)
  have s2: "statuses (world0 [Inr StatusBusy, Inr StatusNotFound, Inr StatusRunning] None None)
      = replicate 1 (Inr StatusBusy) @ Inr StatusNotFound # [Inr StatusRunning] \<and>
     createResult (world0 [Inr StatusBusy, Inr StatusNotFound, Inr StatusRunning] None None) = None"
    by simp
  from startWait_provision_success
         [where n = 1 and rest = "[Inr StatusRunning]"
            and mw = "world0 [Inr StatusBusy, Inr StatusNotFound, Inr StatusRunning] None None",
          THEN conjunct2, THEN conjunct2, THEN conjunct2] s2
  have d: "\<exists>w'. startWait mock_client mock_log mock_rt True
           (world0 [Inr StatusBusy, Inr StatusNotFound, Inr StatusRunning] None None)
         = Some (None, w') \<and>
        count_list (calls w') CallStatus = 2 \<and>
        count_list (calls w') CallStart = 0 \<and>
        count_list (calls w') CallCreate = 1 \<and>
        statuses w' = [Inr StatusRunning]"
    by (simp add: numeral_2_eq_2)
  from a b c d show ?thesis by simp
qed

text \<open>
  C2, at the failing input: status NotFound, provisioning allowed, \<open>Create\<close> fails with
  the error "quota exceeded". \<open>startWait\<close> returns that error as it is, with no action
  name in front; the same failure of \<open>Start\<close> comes back as
  "start workspace: quota exceeded".
\<close>

theorem startWait_Create_error_unwrapped:
  "map_option (\<lambda>(err, w). (map_option Error err, calls w))
     (startWait mock_client mock_log mock_rt True
        (world0 [Inr StatusNotFound] None (Some (External ''quota exceeded''))))
   = Some (Some ''quota exceeded'', [CallStatus, CallCreate]) \<and>
   map_option (\<lambda>(err, w). (map_option Error err, calls w))
     (startWait mock_client mock_log mock_rt True
        (world0 [Inr StatusStopped] (Some (External ''quota exceeded'')) None))
   = Some (Some ''start workspace: quota exceeded'', [CallStatus, CallStart])"
  by (simp add: startWait_def startWait_loop_Stopped startWait_loop_NotFound
        mock_Status_cons mock_client_def world0_def called_def)

lemma startWait_loop_busy_then_running:
  "statuses w = replicate n (Inr StatusBusy) @ Inr StatusRunning # rest \<Longrightarrow>
   \<exists>w'. startWait_loop mock_client mock_log mock_rt create t w = Some (None, w') \<and>
        count_list (calls w') CallStatus = count_list (calls w) CallStatus + n + 1 \<and>
        count_list (calls w') CallStart = count_list (calls w) CallStart \<and>
        count_list (calls w') CallCreate = count_list (calls w) CallCreate \<and>
        statuses w' = rest"
proof (induction n arbitrary: w t)
  case 0
  then have "Status mock_client w = (Inr StatusRunning, called CallStatus (w\<lparr>statuses := rest\<rparr>))"
    by (simp add: mock_Status_cons)
  then show ?case
    by (simp add: startWait_loop_Running)
next
  case (Suc n)
  let ?script = "replicate n (Inr StatusBusy) @ Inr StatusRunning # rest"
  define w1 where "w1 = called CallStatus (w\<lparr>statuses := ?script\<rparr>)"
  from Suc.prems have st: "Status mock_client w = (Inr StatusBusy, w1)"
    by (simp add: mock_Status_cons w1_def)
  show ?case
  proof (cases "time_Now mock_rt w1 - t > Second * 10")
    case True
    define w' where "w' = Debugf mock_log ''Got status Busy, expected: Running''
                            (Infof mock_log ''Waiting for workspace to come up...'' w1)"
    define w2 where "w2 = time_Sleep mock_rt (Second * 2) w'"
    have script: "statuses w2 = ?script"
      by (simp add: w2_def w'_def w1_def)
    have counts:
      "count_list (calls w2) CallStatus = count_list (calls w) CallStatus + 1"
      "count_list (calls w2) CallStart = count_list (calls w) CallStart"
      "count_list (calls w2) CallCreate = count_list (calls w) CallCreate"
      by (simp_all add: w2_def w'_def w1_def)
    have step: "startWait_loop mock_client mock_log mock_rt create t w =
                startWait_loop mock_client mock_log mock_rt create (time_Now mock_rt w') w2"
      unfolding w2_def by (rule startWait_loop_Busy_notice [OF st True w'_def])
    from Suc.IH [OF script, of "time_Now mock_rt w'"] show ?thesis
      unfolding step counts by auto
  next
    case False
    define w2 where "w2 = time_Sleep mock_rt (Second * 2) w1"
    have script: "statuses w2 = ?script"
      by (simp add: w2_def w1_def)
    have counts:
      "count_list (calls w2) CallStatus = count_list (calls w) CallStatus + 1"
      "count_list (calls w2) CallStart = count_list (calls w) CallStart"
      "count_list (calls w2) CallCreate = count_list (calls w) CallCreate"
      by (simp_all add: w2_def w1_def)
    have step: "startWait_loop mock_client mock_log mock_rt create t w =
                startWait_loop mock_client mock_log mock_rt create t w2"
      unfolding w2_def by (rule startWait_loop_Busy_quiet [OF st False])
    from Suc.IH [OF script, of t] show ?thesis
      unfolding step counts by auto
  qed
qed

text \<open>
  C3: a Running status on the first query makes \<open>startWait\<close> return nil at once, in the
  world that query left, for any client. Against a scripted client whose status sequence
  is \<open>n\<close> times Busy and then Running (whatever follows), \<open>startWait\<close> returns nil, has
  made exactly \<open>n + 1\<close> more status queries, has called neither \<open>Start\<close> nor \<open>Create\<close>,
  and has consumed the sequence up to and including Running.
\<close>

theorem startWait_busy_then_running:
  "(Status client w0 = (Inr StatusRunning, w1) \<longrightarrow>
      startWait client log rt create w0 = Some (None, w1)) \<and>
   (statuses w = replicate n (Inr StatusBusy) @ Inr StatusRunning # rest \<longrightarrow>
      (\<exists>w'. startWait mock_client mock_log mock_rt create w = Some (None, w') \<and>
         count_list (calls w') CallStatus = count_list (calls w) CallStatus + n + 1 \<and>
         count_list (calls w') CallStart = count_list (calls w) CallStart \<and>
         count_list (calls w') CallCreate = count_list (calls w) CallCreate \<and>
         statuses w' = rest))"
proof (intro conjI impI)
  assume "Status client w0 = (Inr StatusRunning, w1)"
  then show "startWait client log rt create w0 = Some (None, w1)"
    by (simp add: startWait_def startWait_loop_Running)
next
  assume "statuses w = replicate n (Inr StatusBusy) @ Inr StatusRunning # rest"
  then show "\<exists>w'. startWait mock_client mock_log mock_rt create w = Some (None, w') \<and>
         count_list (calls w') CallStatus = count_list (calls w) CallStatus + n + 1 \<and>
         count_list (calls w') CallStart = count_list (calls w) CallStart \<and>
         count_list (calls w') CallCreate = count_list (calls w) CallCreate \<and>
         statuses w' = rest"
    unfolding startWait_def Let_def by (rule startWait_loop_busy_then_running)
qed

theorem startWait_busy_then_running_witness:
  "startWait mock_client mock_log mock_rt True (world0 [Inr StatusRunning] None None)
     = Some (None, called CallStatus (world0 [] None None)) \<and>
   (\<exists>w'. startWait mock_client mock_log mock_rt False
           (world0 [Inr StatusBusy, Inr StatusBusy, Inr StatusRunning] None None) = Some (None, w') \<and>
        count_list (calls w') CallStatus = 3 \<and>
        count_list (calls w') CallStart = 0 \<and>
        count_list (calls w') CallCreate = 0 \<and>
        statuses w' = [])"
proof -
  have running: "Status mock_client (world0 [Inr StatusRunning] None None)
     = (Inr StatusRunning, called CallStatus (world0 [] None None))"
    by (simp add: mock_client_def world0_def)
  from startWait_busy_then_running
         [of mock_client "world0 [Inr StatusRunning] None None"
             "called CallStatus (world0 [] None None)" mock_log mock_rt True] running
  have a: "startWait mock_client mock_log mock_rt True (world0 [Inr StatusRunning] None None)
     = Some (None, called CallStatus (world0 [] None None))"
    by blast
  have script: "statuses (world0 [Inr StatusBusy, Inr StatusBusy, Inr StatusRunning] None None)
     = replicate 2 (Inr StatusBusy) @ Inr StatusRunning # []"
    by (simp add: numeral_2_eq_2)
  from startWait_busy_then_running
         [where create = False and n = 2 and rest = "[]"
            and w = "world0 [Inr StatusBusy, Inr StatusBusy, Inr StatusRunning] None None",
          THEN conjunct2]
       script
  have b: "\<exists>w'. startWait mock_client mock_log mock_rt False
           (world0 [Inr StatusBusy, Inr StatusBusy, Inr StatusRunning] None None) = Some (None, w') \<and>
        count_list (calls w') CallStatus = 3 \<and>
        count_list (calls w') CallStart = 0 \<and>
        count_list (calls w') CallCreate = 0 \<and>
        statuses w' = []"
    by (simp add: numeral_3_eq_3)
  from a b show ?thesis by blast
qed

text \<open>
  C4: with provisioning not allowed, a first status of Stopped makes \<open>startWait\<close> return
  the error "workspace is stopped", and a first status of NotFound the error
  "workspace wasn't found". The world returned is the one the status query left: no
  other operation of the client has run, so neither \<open>Start\<close> nor \<open>Create\<close> was called.
\<close>

theorem startWait_not_ready:
  "(Status client w = (Inr StatusStopped, w1) \<longrightarrow>
      startWait client log rt False w = Some (Some (fmt_Errorf ''workspace is stopped''), w1) \<and>
      Error (fmt_Errorf ''workspace is stopped'') = ''workspace is stopped'') \<and>
   (Status client w = (Inr StatusNotFound, w1) \<longrightarrow>
      startWait client log rt False w = Some (Some (fmt_Errorf ''workspace wasn't found''), w1) \<and>
      Error (fmt_Errorf ''workspace wasn't found'') = ''workspace wasn't found'')"
  by (simp add: startWait_def startWait_loop_Stopped startWait_loop_NotFound)

theorem startWait_not_ready_witness:
  "startWait mock_client mock_log mock_rt False (world0 [Inr StatusStopped] None None)
     = Some (Some (fmt_Errorf ''workspace is stopped''), called CallStatus (world0 [] None None)) \<and>
   startWait mock_client mock_log mock_rt False (world0 [Inr StatusNotFound] None None)
     = Some (Some (fmt_Errorf ''workspace wasn't found''), called CallStatus (world0 [] None None)) \<and>
   calls (called CallStatus (world0 [] None None)) = [CallStatus]"
proof -
  let ?w1 = "called CallStatus (world0 [] None None)"
  have stopped: "Status mock_client (world0 [Inr StatusStopped] None None) = (Inr StatusStopped, ?w1)"
    by (simp add: mock_client_def world0_def)
  have notfound: "Status mock_client (world0 [Inr StatusNotFound] None None) = (Inr StatusNotFound, ?w1)"
    by (simp add: mock_client_def world0_def)
  from startWait_not_ready
         [of mock_client "world0 [Inr StatusStopped] None None" ?w1 mock_log mock_rt] stopped
  have a: "startWait mock_client mock_log mock_rt False (world0 [Inr StatusStopped] None None)
     = Some (Some (fmt_Errorf ''workspace is stopped''), ?w1)"
    by blast
  from startWait_not_ready
         [of mock_client "world0 [Inr StatusNotFound] None None" ?w1 mock_log mock_rt] notfound
  have b: "startWait mock_client mock_log mock_rt False (world0 [Inr StatusNotFound] None None)
     = Some (Some (fmt_Errorf ''workspace wasn't found''), ?w1)"
    by blast
  from a b show ?thesis by simp
qed

section \<open>Remote command strings\<close>

text \<open>
  C5: the command of the outer tunnel is the agent path, the fixed words, the quoted
  token and the quoted workspace info, then \<open>--debug\<close> exactly when \<open>cmd.Debug\<close> is set,
  then the quoted \<open>--user\<close> segment exactly when \<open>cmd.User\<close> is not empty. It depends on
  nothing else, and another user changes the \<open>--user\<close> segment at the end only.
\<close>

theorem jumpContainer_command_form:
  "jumpContainer_command cmd agentPath tok workspaceInfo =
     agentPath @ '' agent container-tunnel --start-container --track-activity --token ''
       @ [CHR 0x27] @ tok @ [CHR 0x27] @ '' --workspace-info '' @ [CHR 0x27] @ workspaceInfo @ [CHR 0x27]
       @ (if Debug cmd then '' --debug'' else [])
       @ (if User cmd \<noteq> [] then '' --user='' @ [CHR 0x27] @ User cmd @ [CHR 0x27] else []) \<and>
   jumpContainer_command (cmd\<lparr>User := u\<rparr>) agentPath tok workspaceInfo =
     jumpContainer_command (cmd\<lparr>User := []\<rparr>) agentPath tok workspaceInfo
       @ (if u \<noteq> [] then '' --user='' @ [CHR 0x27] @ u @ [CHR 0x27] else [])"
  by (simp add: jumpContainer_command_def)

theorem jumpContainer_command_form_witness:
  "jumpContainer_command
     \<lparr>Context = [], Provider = [], Debug = True, Stdio = False, JumpContainer = False,
      Configure = False, Command = [], User = ''bob''\<rparr> ''/opt/agent'' ''t0k'' ''{}'' =
     ''/opt/agent agent container-tunnel --start-container --track-activity --token ''
       @ [CHR 0x27] @ ''t0k'' @ [CHR 0x27] @ '' --workspace-info '' @ [CHR 0x27] @ ''{}'' @ [CHR 0x27]
       @ '' --debug --user='' @ [CHR 0x27] @ ''bob'' @ [CHR 0x27]"
  using jumpContainer_command_form
    [of "\<lparr>Context = [], Provider = [], Debug = True, Stdio = False, JumpContainer = False,
          Configure = False, Command = [], User = ''bob''\<rparr>" "''/opt/agent''" "''t0k''" "''{}''" "''bob''"]
  by simp

text \<open>
  C7, as stated, at a concrete input: with git forwarding off and the user name
  \<open>x --configure-git-helper\<close>, the command contains \<open>--configure-git-helper\<close> (inside the
  quoted user name) although \<open>gitCredentials\<close> is false.
\<close>

theorem runCredentialsServer_command_contains_user_text:
  "sublist '' --configure-git-helper''
     (runCredentialsServer_command ''/usr/local/bin/devpod'' ''x --configure-git-helper'' False True)"
proof -
  have "runCredentialsServer_command ''/usr/local/bin/devpod'' ''x --configure-git-helper'' False True =
      (''/usr/local/bin/devpod agent container credentials-server --user '' @ [CHR 0x27] @ ''x'')
      @ '' --configure-git-helper'' @ ([CHR 0x27] @ '' --configure-docker-helper'')"
    by (simp add: runCredentialsServer_command_def)
  then show ?thesis
    by (simp only: sublist_appendI)
qed

lemma flags_sublist:
  "\<not> sublist '' --configure-git-helper'' '' --configure-docker-helper''"
  "\<not> sublist '' --configure-docker-helper'' '' --configure-git-helper''"
  "\<not> sublist '' --configure-git-helper'' []"
  "\<not> sublist '' --configure-docker-helper'' []"
  "sublist '' --configure-git-helper'' '' --configure-git-helper''"
  "sublist '' --configure-docker-helper'' '' --configure-docker-helper''"
  "sublist '' --configure-git-helper'' '' --configure-git-helper --configure-docker-helper''"
  "sublist '' --configure-docker-helper'' '' --configure-git-helper --configure-docker-helper''"
  by code_simp+

text \<open>
  C7 (amended): the command is the helper path, the words
  \<open>agent container credentials-server --user\<close> and the quoted user, followed by
  \<open>--configure-git-helper\<close> if and only if \<open>gitCredentials\<close> is true and then by
  \<open>--configure-docker-helper\<close> if and only if \<open>dockerCredentials\<close> is true: what follows
  the quoted user contains each flag exactly when its boolean is set.
\<close>

theorem runCredentialsServer_command_form:
  "\<exists>rest.
     runCredentialsServer_command helperLocation user gitCredentials dockerCredentials =
       (helperLocation @ '' agent container credentials-server --user '' @ [CHR 0x27] @ user @ [CHR 0x27]) @ rest \<and>
     rest = (if gitCredentials then '' --configure-git-helper'' else [])
            @ (if dockerCredentials then '' --configure-docker-helper'' else []) \<and>
     (sublist '' --configure-git-helper'' rest \<longleftrightarrow> gitCredentials) \<and>
     (sublist '' --configure-docker-helper'' rest \<longleftrightarrow> dockerCredentials)"
  by (cases gitCredentials; cases dockerCredentials)
     (simp_all add: runCredentialsServer_command_def flags_sublist)

theorem runCredentialsServer_command_form_witness:
  "runCredentialsServer_command ''/usr/local/bin/devpod'' ''bob'' True False =
     ''/usr/local/bin/devpod agent container credentials-server --user '' @ [CHR 0x27] @ ''bob'' @ [CHR 0x27]
       @ '' --configure-git-helper'' \<and>
   sublist '' --configure-git-helper'' '' --configure-git-helper'' \<and>
   \<not> sublist '' --configure-docker-helper'' '' --configure-git-helper''"
  using runCredentialsServer_command_form [of "''/usr/local/bin/devpod''" "''bob''" True False]
  by simp

section \<open>The credentials server\<close>

text \<open>
  C6: with both flags false \<open>runCredentialsServer\<close> returns nil in the world it was
  called in. No operation of the environment has run: no pipe, no remote process, no
  tunnel server.
\<close>

theorem runCredentialsServer_noop:
  "runCredentialsServer log rt client user False False w = Some (None, w)"
  by (simp add: runCredentialsServer_def)

theorem runCredentialsServer_noop_witness:
  "map_option (\<lambda>(err, w). (err, calls w, pipes w))
     (runCredentialsServer mock_log mock_rt 0 ''bob'' False False (world0 [] None None))
   = Some (None, [], [Inr (3, 4), Inr (5, 6)])"
  using runCredentialsServer_noop [of mock_log mock_rt 0 "''bob''" "world0 [] None None"]
  by (simp add: world0_def)

text \<open>
  C8: the handler \<open>jumpContainer\<close> installs never returns an error. When
  \<open>runCredentialsServer\<close> returns an error, the handler logs
  "Error running credential server: " followed by the error, waits for the context to be
  done and returns nil; it returns exactly when the context is cancelled.
\<close>

theorem runInContainer_swallows_error:
  "runInContainer cmd client log rt w0 = Some h \<Longrightarrow>
   (\<forall>e w'. h sshClient w \<noteq> Some (Some e, w')) \<and>
   (\<forall>e w1. runCredentialsServer log rt sshClient (User cmd)
              (WorkspaceConfig_IDE_Name client w0 \<noteq> IDEVSCode rt) True w = Some (Some e, w1) \<longrightarrow>
      h sshClient w =
        map_option (Pair None)
          (ctx_Done rt (Errorf log (''Error running credential server: '' @ Error e) w1)))"
  by (auto simp: runInContainer_def runInContainer_handler_def Let_def
           split: if_splits option.splits prod.splits)


theorem runInContainer_swallows_error_witness:
  "runInContainer
     \<lparr>Context = [], Provider = [], Debug = False, Stdio = False, JumpContainer = False,
      Configure = False, Command = [], User = ''bob''\<rparr>
     mock_client mock_log mock_rt (world0 [] None None)
     = Some (runInContainer_handler mock_log mock_rt ''bob'' True) \<and>
   runCredentialsServer mock_log mock_rt 0 ''bob'' True True ((world0 [] None None)\<lparr>pipes := []\<rparr>)
     = Some (Some (External ''too many open files''),
             called CallPipe ((world0 [] None None)\<lparr>pipes := []\<rparr>)) \<and>
   runInContainer_handler mock_log mock_rt ''bob'' True 0 ((world0 [] None None)\<lparr>pipes := []\<rparr>)
     = Some (None, called (CallErrorf ''Error running credential server: too many open files'')
                     (called CallPipe ((world0 [] None None)\<lparr>pipes := []\<rparr>)))"
proof -
  let ?cmd = "\<lparr>Context = [], Provider = [], Debug = False, Stdio = False, JumpContainer = False,
      Configure = False, Command = [], User = ''bob''\<rparr>"
  let ?w = "(world0 [] None None)\<lparr>pipes := []\<rparr>"
  have inst: "runInContainer ?cmd mock_client mock_log mock_rt (world0 [] None None)
     = Some (runInContainer_handler mock_log mock_rt ''bob'' True)"
    by (simp add: runInContainer_def world0_def)
  have ide: "(WorkspaceConfig_IDE_Name mock_client (world0 [] None None) \<noteq> IDEVSCode mock_rt) = True"
    by (simp add: world0_def)
  have run: "runCredentialsServer mock_log mock_rt 0 ''bob'' True True ?w
     = Some (Some (External ''too many open files''), called CallPipe ?w)"
    by (simp add: runCredentialsServer_def)
  have cancelled: "ctxCancelled ?w"
    by (simp add: world0_def)
  from runInContainer_swallows_error [OF inst, of 0 ?w] run
  have "runInContainer_handler mock_log mock_rt ''bob'' True 0 ?w =
        map_option (Pair None)
          (ctx_Done mock_rt (Errorf mock_log (''Error running credential server: '' @
             Error (External ''too many open files'')) (called CallPipe ?w)))"
    unfolding ide by simp
  with inst run cancelled show ?thesis by simp
qed

section \<open>The ssh command never provisions\<close>

lemma startWait_loop_no_provision:
  assumes "startWait_loop mock_client mock_log mock_rt False t w = Some y"
  shows "provisionCalls (snd y) = provisionCalls w"
proof -
  have "mock_client = mock_client \<and> mock_log = mock_log \<and> mock_rt = mock_rt \<and> \<not> False \<longrightarrow>
        provisionCalls (snd y) = provisionCalls w"
  proof (rule startWait_loop.raw_induct
      [where P = "\<lambda>client log rt create t w y.
         client = mock_client \<and> log = mock_log \<and> rt = mock_rt \<and> \<not> create \<longrightarrow>
         provisionCalls (snd y) = provisionCalls w", OF _ assms], goal_cases)
    case (1 f client log rt create t w y)
    show ?case
    proof (cases "statuses w")
      case Nil
      with 1(2) show ?thesis
        by (auto simp: mock_Status_nil provisionCalls_called)
    next
      case (Cons r rs)
      with 1(2) show ?thesis
        by (auto simp: mock_Status_cons provisionCalls_called Let_def
                 split: sum.splits if_splits dest!: 1(1))
    qed
  qed
  then show ?thesis by simp
qed

lemma startWait_no_provision:
  "startWait mock_client mock_log mock_rt False w = Some (r, w') \<Longrightarrow>
   provisionCalls w' = provisionCalls w"
  unfolding startWait_def Let_def
  by (drule startWait_loop_no_provision) simp

lemma runCredentialsServer_no_provision:
  "runCredentialsServer mock_log mock_rt c user git docker w = Some (r, w') \<Longrightarrow>
   provisionCalls w' = provisionCalls w"
  by (auto simp: runCredentialsServer_def provisionCalls_called Let_def
           split: if_splits list.splits sum.splits option.splits prod.splits)

lemma runInContainer_handler_no_provision:
  "runInContainer_handler mock_log mock_rt user git c w = Some (r, w') \<Longrightarrow>
   provisionCalls w' = provisionCalls w"
  by (auto simp: runInContainer_handler_def provisionCalls_called Let_def
           split: if_splits option.splits prod.splits
           dest!: runCredentialsServer_no_provision)

lemma jumpContainer_handler_no_provision:
  "jumpContainer_handler cmd mock_client mock_log mock_rt tok info c w = Some (r, w') \<Longrightarrow>
   provisionCalls w' = provisionCalls w"
  by (auto simp: jumpContainer_handler_def provisionCalls_called Let_def
           split: if_splits)

lemma jumpContainer_no_provision:
  "jumpContainer cmd mock_client mock_log mock_rt w = Some (r, w') \<Longrightarrow>
   provisionCalls w' = provisionCalls w"
  by (auto simp: jumpContainer_def runInContainer_def provisionCalls_called Let_def
           split: if_splits option.splits prod.splits
           dest!: startWait_no_provision runInContainer_handler_no_provision
                  jumpContainer_handler_no_provision)


text \<open>
  C9: \<open>jumpContainer\<close> waits with \<open>create = false\<close>. Whatever error the wait returns comes
  back from \<open>jumpContainer\<close> in the world the wait left; so a first status of Stopped or
  NotFound ends the command with the error of the wait, right after the status query.
  Against the scripted environment, a run of \<open>jumpContainer\<close> that returns has added no
  call of \<open>Start\<close> or \<open>Create\<close>, whatever the status sequence.
\<close>

theorem jumpContainer_never_provisions:
  "(startWait client log rt False w = Some (Some err, w1) \<longrightarrow>
      jumpContainer cmd client log rt w = Some (Some err, w1)) \<and>
   (Status client w = (Inr StatusStopped, w1) \<longrightarrow>
      jumpContainer cmd client log rt w = Some (Some (fmt_Errorf ''workspace is stopped''), w1)) \<and>
   (Status client w = (Inr StatusNotFound, w1) \<longrightarrow>
      jumpContainer cmd client log rt w = Some (Some (fmt_Errorf ''workspace wasn't found''), w1)) \<and>
   (jumpContainer cmd mock_client mock_log mock_rt mw = Some (r, mw') \<longrightarrow>
      provisionCalls mw' = provisionCalls mw)"
  by (simp add: jumpContainer_def startWait_def startWait_loop_Stopped startWait_loop_NotFound
        jumpContainer_no_provision [unfolded jumpContainer_def startWait_def])

theorem jumpContainer_never_provisions_witness:
  "jumpContainer
     \<lparr>Context = [], Provider = [], Debug = False, Stdio = False, JumpContainer = False,
      Configure = False, Command = [], User = ''bob''\<rparr>
     mock_client mock_log mock_rt (world0 [Inr StatusStopped] None None)
     = Some (Some (fmt_Errorf ''workspace is stopped''), called CallStatus (world0 [] None None)) \<and>
   jumpContainer
     \<lparr>Context = [], Provider = [], Debug = False, Stdio = False, JumpContainer = False,
      Configure = False, Command = [], User = ''bob''\<rparr>
     mock_client mock_log mock_rt (world0 [Inr StatusNotFound] None None)
     = Some (Some (fmt_Errorf ''workspace wasn't found''), called CallStatus (world0 [] None None)) \<and>
   calls (called CallStatus (world0 [] None None)) = [CallStatus] \<and>
   provisionCalls (called CallStatus (world0 [] None None)) = []"
proof -
  let ?cmd = "\<lparr>Context = [], Provider = [], Debug = False, Stdio = False, JumpContainer = False,
      Configure = False, Command = [], User = ''bob''\<rparr>"
  let ?w1 = "called CallStatus (world0 [] None None)"
  have stopped: "Status mock_client (world0 [Inr StatusStopped] None None) = (Inr StatusStopped, ?w1)"
    by (simp add: mock_client_def world0_def)
  have notfound: "Status mock_client (world0 [Inr StatusNotFound] None None) = (Inr StatusNotFound, ?w1)"
    by (simp add: mock_client_def world0_def)
  from jumpContainer_never_provisions
         [of mock_client mock_log mock_rt "world0 [Inr StatusStopped] None None" _ ?w1 ?cmd] stopped
  have a: "jumpContainer ?cmd mock_client mock_log mock_rt (world0 [Inr StatusStopped] None None)
     = Some (Some (fmt_Errorf ''workspace is stopped''), ?w1)"
    by blast
  from jumpContainer_never_provisions
         [of mock_client mock_log mock_rt "world0 [Inr StatusNotFound] None None" _ ?w1 ?cmd] notfound
  have b: "jumpContainer ?cmd mock_client mock_log mock_rt (world0 [Inr StatusNotFound] None None)
     = Some (Some (fmt_Errorf ''workspace wasn't found''), ?w1)"
    by blast
  from jumpContainer_never_provisions
         [of _ _ _ _ _ _ ?cmd "world0 [Inr StatusStopped] None None" "Some (fmt_Errorf ''workspace is stopped'')" ?w1] a
  have c: "provisionCalls ?w1 = []"
    by (simp add: provisionCalls_def)
  from a b c show ?thesis by simp
qed

section \<open>When credentials are forwarded\<close>

text \<open>
  C10: the inner handler is nil exactly when \<open>cmd.User\<close> is empty. When it is installed,
  it runs \<open>runCredentialsServer\<close> for that user with \<open>dockerCredentials = true\<close> and with
  \<open>gitCredentials\<close> true exactly when the IDE of the workspace is not VSCode; and it is
  the handler \<open>jumpContainer\<close> hands to the container tunnel once the wait, the token and
  the agent info have succeeded.
\<close>

theorem runInContainer_iff_user:
  "(runInContainer cmd client log rt w = None \<longleftrightarrow> User cmd = []) \<and>
   (User cmd \<noteq> [] \<longrightarrow>
      (\<exists>h. runInContainer cmd client log rt w = Some h \<and>
           (\<forall>sshClient w'. h sshClient w' =
              (case runCredentialsServer log rt sshClient (User cmd)
                      (WorkspaceConfig_IDE_Name client w \<noteq> IDEVSCode rt) True w' of
                 None \<Rightarrow> None
               | Some (err, w1) \<Rightarrow>
                   map_option (Pair None)
                     (ctx_Done rt
                        (case err of
                           None \<Rightarrow> w1
                         | Some e \<Rightarrow> Errorf log (''Error running credential server: '' @ Error e) w1)))))) \<and>
   (startWait client log rt False w0 = Some (None, w1) \<and>
    GetDevPodToken rt w1 = (Inr tok, w2) \<and> AgentInfo client w2 = (Inr workspaceInfo, w) \<longrightarrow>
      jumpContainer cmd client log rt w0 =
        ContainerTunnel_Run rt (jumpContainer_handler cmd client log rt tok workspaceInfo)
          (runInContainer cmd client log rt w) w)"
  by (auto simp: runInContainer_def runInContainer_handler_def jumpContainer_def Let_def
           split: option.splits prod.splits)

theorem runInContainer_iff_user_witness:
  "runInContainer
     \<lparr>Context = [], Provider = [], Debug = False, Stdio = False, JumpContainer = False,
      Configure = False, Command = [], User = []\<rparr>
     mock_client mock_log mock_rt (world0 [] None None) = None \<and>
   (\<exists>h. runInContainer
          \<lparr>Context = [], Provider = [], Debug = False, Stdio = False, JumpContainer = False,
           Configure = False, Command = [], User = ''bob''\<rparr>
          mock_client mock_log mock_rt ((world0 [] None None)\<lparr>ideName := ''vscode''\<rparr>) = Some h \<and>
        map_option (\<lambda>(err, w). (err, calls w)) (h 0 ((world0 [] None None)\<lparr>ideName := ''vscode''\<rparr>)) =
          Some (None,
            [CallPipe, CallPipe,
             CallGoRun 0 (''/usr/local/bin/devpod agent container credentials-server --user ''
                          @ [CHR 0x27] @ ''bob'' @ [CHR 0x27] @ '' --configure-docker-helper''),
             CallRunTunnelServer False True, CallRecvErrChan,
             CallCancel, CallClose 6, CallClose 4]))"
proof -
  let ?none = "\<lparr>Context = [], Provider = [], Debug = False, Stdio = False, JumpContainer = False,
      Configure = False, Command = [], User = []\<rparr>"
  let ?bob = "\<lparr>Context = [], Provider = [], Debug = False, Stdio = False, JumpContainer = False,
      Configure = False, Command = [], User = ''bob''\<rparr>"
  let ?v = "(world0 [] None None)\<lparr>ideName := ''vscode''\<rparr>"
  from runInContainer_iff_user [of ?none mock_client mock_log mock_rt "world0 [] None None"]
  have a: "runInContainer ?none mock_client mock_log mock_rt (world0 [] None None) = None"
    by simp
  have user: "User ?bob \<noteq> []" by simp
  from runInContainer_iff_user [of ?bob mock_client mock_log mock_rt ?v] user
  obtain h where h: "runInContainer ?bob mock_client mock_log mock_rt ?v = Some h"
    and run: "\<And>sshClient w'. h sshClient w' =
              (case runCredentialsServer mock_log mock_rt sshClient (User ?bob)
                      (WorkspaceConfig_IDE_Name mock_client ?v \<noteq> IDEVSCode mock_rt) True w' of
                 None \<Rightarrow> None
               | Some (err, w1) \<Rightarrow>
                   map_option (Pair None)
                     (ctx_Done mock_rt
                        (case err of
                           None \<Rightarrow> w1
                         | Some e \<Rightarrow> Errorf mock_log (''Error running credential server: '' @ Error e) w1)))"
    by blast
  have "map_option (\<lambda>(err, w). (err, calls w)) (h 0 ?v) =
          Some (None,
            [CallPipe, CallPipe,
             CallGoRun 0 (''/usr/local/bin/devpod agent container credentials-server --user ''
                          @ [CHR 0x27] @ ''bob'' @ [CHR 0x27] @ '' --configure-docker-helper''),
             CallRunTunnelServer False True, CallRecvErrChan,
             CallCancel, CallClose 6, CallClose 4])"
    unfolding run
    by (simp add: runCredentialsServer_def runCredentialsServer_command_def world0_def called_def)
  with a h show ?thesis by blast
qed

end
